theory Spec2Isabelle
  imports Main "HOL-Library.AList"
begin

section \<open>Python strings and paths\<close>

text \<open>
  A Python \<open>str\<close> is modelled as a \<open>string\<close> in which every \<open>char\<close> stands for one code
  point below 256. On that range \<open>str.lower\<close> and \<open>str.isspace\<close> are the functions below.
\<close>

definition lower_char :: "char \<Rightarrow> char" where
  "lower_char c =
     (let n = (of_char c :: nat)
      in if (65 \<le> n \<and> n \<le> 90) \<or> (192 \<le> n \<and> n \<le> 222 \<and> n \<noteq> 215)
         then char_of (n + 32) else c)"

definition lower :: "string \<Rightarrow> string" where
  "lower s = map lower_char s"

definition isspace :: "char \<Rightarrow> bool" where
  "isspace c =
     (let n = (of_char c :: nat)
      in (9 \<le> n \<and> n \<le> 13) \<or> (28 \<le> n \<and> n \<le> 32) \<or> n = 133 \<or> n = 160)"

definition startswith :: "string \<Rightarrow> string \<Rightarrow> bool" where
  "startswith s p = (take (length p) s = p)"

definition endswith :: "string \<Rightarrow> string \<Rightarrow> bool" where
  "endswith s p = (length p \<le> length s \<and> drop (length s - length p) s = p)"

text \<open>\<open>s.replace(old, new)\<close> for one-character \<open>old\<close> and \<open>new\<close>.\<close>

definition replace :: "string \<Rightarrow> char \<Rightarrow> char \<Rightarrow> string" where
  "replace s old new = map (\<lambda>c. if c = old then new else c) s"

text \<open>\<open>s.strip()\<close>, \<open>s.rstrip('/')\<close>.\<close>

definition rstrip_with :: "(char \<Rightarrow> bool) \<Rightarrow> string \<Rightarrow> string" where
  "rstrip_with P s = rev (dropWhile P (rev s))"

definition strip :: "string \<Rightarrow> string" where
  "strip s = rstrip_with isspace (dropWhile isspace s)"

text \<open>\<open>s.rfind(c)\<close>: the index of the last occurrence of \<open>c\<close>, or \<open>-1\<close>.\<close>

definition rfind :: "string \<Rightarrow> char \<Rightarrow> int" where
  "rfind s c =
     (if c \<in> set s then int (length s) - 1 - int (length (takeWhile (\<lambda>x. x \<noteq> c) (rev s)))
      else - 1)"

text \<open>\<open>s.split('.')[0]\<close>: the text before the first dot (all of \<open>s\<close> when it has none).\<close>

definition split_dot_0 :: "string \<Rightarrow> string" where
  "split_dot_0 s = takeWhile (\<lambda>c. c \<noteq> CHR ''.'') s"

text \<open>\<open>s.split('=', 1)\<close>: one part when \<open>s\<close> has no \<open>=\<close>, else the two parts around the first.\<close>

definition split_eq_1 :: "string \<Rightarrow> string list" where
  "split_eq_1 s =
     (if CHR ''='' \<in> set s
      then [takeWhile (\<lambda>c. c \<noteq> CHR ''='') s, tl (dropWhile (\<lambda>c. c \<noteq> CHR ''='') s)]
      else [s])"

text \<open>\<open>s.split()\<close>: the maximal runs of non-whitespace characters.\<close>

fun split_ws :: "string \<Rightarrow> string \<Rightarrow> string list" where
  "split_ws cur [] = (if cur = [] then [] else [cur])"
| "split_ws cur (c # cs) =
     (if isspace c then (if cur = [] then split_ws [] cs else cur # split_ws [] cs)
      else split_ws (cur @ [c]) cs)"

definition split_whitespace :: "string \<Rightarrow> string list" where
  "split_whitespace s = split_ws [] s"

text \<open>\<open>'\n'.join(xs)\<close>.\<close>

fun join_lines :: "string list \<Rightarrow> string" where
  "join_lines [] = []"
| "join_lines [x] = x"
| "join_lines (x # y # ys) = x @ CHR 0x0A # join_lines (y # ys)"


subsection \<open>\<open>os.path\<close> (posixpath)\<close>

definition basename :: "string \<Rightarrow> string" where
  "basename p = drop (nat (rfind p CHR ''/'' + 1)) p"

text \<open>\<open>os.path.split\<close>; \<open>os.path.dirname\<close> is its first component.\<close>

definition path_split :: "string \<Rightarrow> string \<times> string" where
  "path_split p =
     (let i = nat (rfind p CHR ''/'' + 1);
          head = take i p;
          tail = drop i p
      in (if head \<noteq> [] \<and> head \<noteq> replicate (length head) CHR ''/''
          then rstrip_with (\<lambda>c. c = CHR ''/'') head else head, tail))"

definition dirname :: "string \<Rightarrow> string" where
  "dirname p = fst (path_split p)"

text \<open>\<open>os.path.join(a, b)\<close>, and the fold of it that \<open>os.path.join(a, *p)\<close> is.\<close>

definition path_join :: "string \<Rightarrow> string \<Rightarrow> string" where
  "path_join a b =
     (if startswith b ''/'' then b
      else if a = [] \<or> endswith a ''/'' then a @ b
      else a @ ''/'' @ b)"

definition path_join_all :: "string \<Rightarrow> string list \<Rightarrow> string" where
  "path_join_all a ps = foldl path_join a ps"

text \<open>
  \<open>os.path.splitext(p)[0]\<close>: the last dot splits off an extension when it comes after the
  last slash and some character between the two is not a dot.
\<close>

fun has_non_dot :: "string \<Rightarrow> bool" where
  "has_non_dot [] = False"
| "has_non_dot (c # cs) = (if c \<noteq> CHR ''.'' then True else has_non_dot cs)"

definition splitext_0 :: "string \<Rightarrow> string" where
  "splitext_0 p =
     (let sepIndex = rfind p CHR ''/'';
          dotIndex = rfind p CHR ''.''
      in if dotIndex > sepIndex
            \<and> has_non_dot (take (nat (dotIndex - (sepIndex + 1))) (drop (nat (sepIndex + 1)) p))
         then take (nat dotIndex) p else p)"

text \<open>
  \<open>os.path.expanduser('~' + rest)\<close> for a \<open>rest\<close> that starts with a slash, \<open>home\<close> being the
  value of \<open>HOME\<close>.
\<close>

definition expanduser :: "string \<Rightarrow> string \<Rightarrow> string" where
  "expanduser home rest =
     (let r = rstrip_with (\<lambda>c. c = CHR ''/'') home @ rest in if r = [] then ''/'' else r)"

section \<open>The install request and the names derived from it\<close>

record app_data =
  executable_path :: string
  app_name :: string
  icon_path :: string
  category :: string
  keywords' :: string
  description :: string
  dependencies :: "string list"

record install_dirs =
  app_dir :: string
  bin_dir :: string
  icon_dir :: string

definition install_dirs_of :: "string \<Rightarrow> bool \<Rightarrow> install_dirs" where
  "install_dirs_of home system_wide =
     (if system_wide
      then \<lparr>app_dir = ''/usr/share/applications'',
            bin_dir = ''/usr/local/bin'',
            icon_dir = ''/usr/share/icons/hicolor/256x256/apps''\<rparr>
      else \<lparr>app_dir = expanduser home ''/.local/share/applications'',
            bin_dir = expanduser home ''/.local/bin'',
            icon_dir = expanduser home ''/.local/share/icons/hicolor/256x256/apps''\<rparr>)"

definition exe_name :: "app_data \<Rightarrow> string" where
  "exe_name d = basename (executable_path d)"

definition new_exe_name :: "app_data \<Rightarrow> string" where
  "new_exe_name d =
     (if app_name d \<noteq> []
      then (let n = replace (lower (app_name d)) CHR '' '' CHR ''-''
            in if \<not> endswith n ''.appimage'' \<and> endswith (exe_name d) ''.appimage''
               then n @ ''.appimage'' else n)
      else exe_name d)"

definition dest_exe_path :: "install_dirs \<Rightarrow> app_data \<Rightarrow> string" where
  "dest_exe_path ds d = path_join (bin_dir ds) (new_exe_name d)"

definition icon_name :: "app_data \<Rightarrow> string" where
  "icon_name d = (if icon_path d \<noteq> [] then split_dot_0 (new_exe_name d) @ ''.png'' else [])"

definition dest_icon_path :: "install_dirs \<Rightarrow> app_data \<Rightarrow> string" where
  "dest_icon_path ds d = path_join (icon_dir ds) (icon_name d)"

definition desktop_file_content :: "install_dirs \<Rightarrow> app_data \<Rightarrow> string list" where
  "desktop_file_content ds d =
     [''[Desktop Entry]'',
      ''Name='' @ (if app_name d \<noteq> [] then app_name d else splitext_0 (exe_name d)),
      ''Exec='' @ dest_exe_path ds d,
      ''Type=Application'',
      ''Categories='' @ (if category d \<noteq> [] then category d else ''Utility'')]
     @ (if icon_name d \<noteq> [] then [''Icon='' @ splitext_0 (icon_name d)] else [])
     @ (if keywords' d \<noteq> [] then [''Keywords='' @ keywords' d] else [])
     @ (if description d \<noteq> [] then [''Comment='' @ description d] else [])"

definition desktop_file_path :: "install_dirs \<Rightarrow> app_data \<Rightarrow> string" where
  "desktop_file_path ds d = path_join (app_dir ds) (split_dot_0 (new_exe_name d) @ ''.desktop'')"

section \<open>The file system\<close>

text \<open>
  Regular files are an association list from path to content, in directory-listing order;
  directories are listed with a flag that says whether the caller may change them: create,
  replace and delete their entries. Paths are compared as strings (no symbolic links, no
  \<open>..\<close>), and the empty path stands for the current directory. A file is held as its text:
  the state has only files whose bytes decode in the encoding of the locale, and reading
  one gives back the text that was written. A file whose bytes do not decode, on which a
  read in text mode raises \<open>UnicodeDecodeError\<close>, is outside this state. Permissions are kept
  per directory only, not per file; a superuser (\<open>su\<close>) is not stopped by the flag of a
  directory.
\<close>

datatype exn =
    FileNotFoundError string
  | PermissionError string
  | IsADirectoryError string
  | NotADirectoryError string
  | FileExistsError string
  | SameFileError string
  | CalledProcessError "string list"
  | IndexError
  | ValueError

record fsys =
  files :: "(string \<times> string) list"
  dirs :: "(string \<times> bool) list"

definition isfile :: "fsys \<Rightarrow> string \<Rightarrow> bool" where
  "isfile fs p = (map_of (files fs) p \<noteq> None)"

definition isdir :: "fsys \<Rightarrow> string \<Rightarrow> bool" where
  "isdir fs p = (map_of (dirs fs) p \<noteq> None)"

definition path_exists :: "fsys \<Rightarrow> string \<Rightarrow> bool" where
  "path_exists fs p = (isfile fs p \<or> isdir fs p)"

definition may_modify :: "bool \<Rightarrow> fsys \<Rightarrow> string \<Rightarrow> bool" where
  "may_modify su fs dir = (su \<or> map_of (dirs fs) dir = Some True)"

text \<open>\<open>open(p, 'r').read()\<close>, for a file that decodes as text.\<close>

definition read_file :: "fsys \<Rightarrow> string \<Rightarrow> exn + string" where
  "read_file fs p =
     (if isdir fs p then Inl (IsADirectoryError p)
      else case map_of (files fs) p of
             None \<Rightarrow> Inl (FileNotFoundError p)
           | Some c \<Rightarrow> Inr c)"

text \<open>\<open>open(p, 'w').write(c)\<close>: the file is created or replaced.\<close>

definition write_file :: "bool \<Rightarrow> fsys \<Rightarrow> string \<Rightarrow> string \<Rightarrow> exn + fsys" where
  "write_file su fs p c =
     (if isdir fs p then Inl (IsADirectoryError p)
      else if isfile fs (dirname p) then Inl (NotADirectoryError p)
      else if \<not> isdir fs (dirname p) then Inl (FileNotFoundError p)
      else if \<not> may_modify su fs (dirname p) then Inl (PermissionError p)
      else Inr (fs\<lparr>files := AList.update p c (files fs)\<rparr>))"

text \<open>\<open>os.remove(p)\<close>.\<close>

definition os_remove :: "bool \<Rightarrow> fsys \<Rightarrow> string \<Rightarrow> exn + fsys" where
  "os_remove su fs p =
     (if isdir fs p then Inl (IsADirectoryError p)
      else if \<not> isfile fs p then Inl (FileNotFoundError p)
      else if \<not> may_modify su fs (dirname p) then Inl (PermissionError p)
      else Inr (fs\<lparr>files := AList.delete p (files fs)\<rparr>))"

text \<open>\<open>os.chmod(p, mode)\<close>: the path has to exist; the mode is not recorded.\<close>

definition os_chmod :: "fsys \<Rightarrow> string \<Rightarrow> exn + fsys" where
  "os_chmod fs p = (if path_exists fs p then Inr fs else Inl (FileNotFoundError p))"

text \<open>
  \<open>shutil.copy\<close> and \<open>shutil.copy2\<close> (they differ in the metadata they keep): a destination
  that is a directory receives the file under the source's base name, and copying an
  existing path onto itself raises \<open>SameFileError\<close>.
\<close>

definition shutil_copy :: "bool \<Rightarrow> fsys \<Rightarrow> string \<Rightarrow> string \<Rightarrow> exn + fsys" where
  "shutil_copy su fs src dst =
     (let dst' = (if isdir fs dst then path_join dst (basename src) else dst)
      in if src = dst' \<and> path_exists fs src then Inl (SameFileError src)
         else case read_file fs src of
                Inl e \<Rightarrow> Inl e
              | Inr c \<Rightarrow> write_file su fs dst' c)"

text \<open>\<open>os.mkdir(name)\<close>, and the same with the errors that \<open>exist_ok=True\<close> swallows.\<close>

definition os_mkdir :: "fsys \<Rightarrow> string \<Rightarrow> exn + fsys" where
  "os_mkdir fs name =
     (if path_exists fs name then Inl (FileExistsError name)
      else if isfile fs (dirname name) then Inl (NotADirectoryError name)
      else if \<not> isdir fs (dirname name) then Inl (FileNotFoundError name)
      else if \<not> may_modify False fs (dirname name) then Inl (PermissionError name)
      else Inr (fs\<lparr>dirs := AList.update name True (dirs fs)\<rparr>))"

definition mkdir_exist_ok :: "fsys \<Rightarrow> string \<Rightarrow> exn + fsys" where
  "mkdir_exist_ok fs name =
     (case os_mkdir fs name of
        Inl e \<Rightarrow> (if isdir fs name then Inr fs else Inl e)
      | Inr fs' \<Rightarrow> Inr fs')"

text \<open>\<open>os.makedirs(name, exist_ok=True)\<close>: the missing ancestors first.\<close>

definition makedirs_split :: "string \<Rightarrow> string \<times> string" where
  "makedirs_split name =
     (let ht = path_split name in if snd ht = [] then path_split (fst ht) else ht)"

lemma length_rstrip_with: "length (rstrip_with P s) \<le> length s"
  unfolding rstrip_with_def using length_dropWhile_le [of P "rev s"] by simp

lemma path_split_head_le: "length (fst (path_split p)) \<le> length p"
proof -
  have "length (rstrip_with (\<lambda>c. c = CHR ''/'') (take i p)) \<le> length p" for i
    using length_rstrip_with [of "\<lambda>c. c = CHR ''/''" "take i p"] by simp
  then show ?thesis by (simp add: path_split_def Let_def)
qed

lemma path_split_head_less:
  assumes "snd (path_split p) \<noteq> []"
  shows "length (fst (path_split p)) < length p"
proof -
  let ?i = "nat (rfind p CHR ''/'' + 1)"
  from assms have i: "?i < length p" by (simp add: path_split_def Let_def)
  have "length (rstrip_with (\<lambda>c. c = CHR ''/'') (take ?i p)) \<le> ?i"
    using length_rstrip_with [of "\<lambda>c. c = CHR ''/''" "take ?i p"] by simp
  with i show ?thesis by (simp add: path_split_def Let_def)
qed

lemma makedirs_split_less:
  assumes "snd (makedirs_split name) \<noteq> []"
  shows "length (fst (makedirs_split name)) < length name"
proof (cases "snd (path_split name) = []")
  case True
  with assms have "snd (path_split (fst (path_split name))) \<noteq> []"
    by (simp add: makedirs_split_def Let_def)
  then have "length (fst (path_split (fst (path_split name)))) < length (fst (path_split name))"
    by (rule path_split_head_less)
  with path_split_head_le [of name] True show ?thesis
    by (simp add: makedirs_split_def Let_def)
next
  case False
  then show ?thesis
    using path_split_head_less [of name] by (simp add: makedirs_split_def Let_def)
qed

function makedirs :: "fsys \<Rightarrow> string \<Rightarrow> exn + fsys" where
  "makedirs fs name =
     (if fst (makedirs_split name) \<noteq> [] \<and> snd (makedirs_split name) \<noteq> []
         \<and> \<not> path_exists fs (fst (makedirs_split name))
      then (case makedirs fs (fst (makedirs_split name)) of
              Inl (FileExistsError x) \<Rightarrow>
                (if snd (makedirs_split name) = ''.'' then Inr fs else mkdir_exist_ok fs name)
            | Inl e \<Rightarrow> Inl e
            | Inr fs' \<Rightarrow>
                (if snd (makedirs_split name) = ''.'' then Inr fs' else mkdir_exist_ok fs' name))
      else mkdir_exist_ok fs name)"
  by pat_completeness auto
termination
  by (relation "measure (\<lambda>(fs, name). length name)") (auto simp: makedirs_split_less)

text \<open>
  \<open>os.listdir(d)\<close>: the names whose path splits into \<open>d\<close> and the name, files before
  directories. (Listing a path that is a regular file raises; here it lists nothing.)
\<close>

definition listdir :: "fsys \<Rightarrow> string \<Rightarrow> string list" where
  "listdir fs d =
     map (\<lambda>p. snd (path_split p))
       (filter (\<lambda>p. fst (path_split p) = d \<and> snd (path_split p) \<noteq> [])
          (map fst (files fs) @ map fst (dirs fs)))"

text \<open>
  A run of several steps keeps the state of the last step that succeeded: nothing is rolled
  back when a later step raises.
\<close>

type_synonym outcome = "exn option \<times> fsys"

definition attempt :: "fsys \<Rightarrow> exn + fsys \<Rightarrow> outcome" where
  "attempt fs r = (case r of Inl e \<Rightarrow> (Some e, fs) | Inr fs' \<Rightarrow> (None, fs'))"

definition and_then :: "outcome \<Rightarrow> (fsys \<Rightarrow> outcome) \<Rightarrow> outcome" where
  "and_then r f = (case fst r of Some e \<Rightarrow> r | None \<Rightarrow> f (snd r))"

section \<open>Entry Installer: \<open>AppInstallThread.run\<close>\<close>

text \<open>
  The environment: the value of \<open>HOME\<close>, the name \<open>tempfile.mktemp()\<close> returns, and for
  every \<open>pkexec\<close> command line the exception \<open>subprocess.run(..., check=True)\<close> raises
  before the command has changed a file (elevation refused, command missing, non-zero exit
  for a reason outside this state), if any.
\<close>

record env =
  home :: string
  mktemp :: string
  pkexec :: "string list \<Rightarrow> exn option"

definition pkexec_cp :: "env \<Rightarrow> fsys \<Rightarrow> string \<Rightarrow> string \<Rightarrow> exn + fsys" where
  "pkexec_cp ev fs src dst =
     (let cmd = [''pkexec'', ''cp'', src, dst]
      in case pkexec ev cmd of
           Some e \<Rightarrow> Inl e
         | None \<Rightarrow> (case shutil_copy True fs src dst of
                      Inl e \<Rightarrow> Inl (CalledProcessError cmd)
                    | Inr fs' \<Rightarrow> Inr fs'))"

definition pkexec_chmod :: "env \<Rightarrow> fsys \<Rightarrow> string \<Rightarrow> exn + fsys" where
  "pkexec_chmod ev fs p =
     (let cmd = [''pkexec'', ''chmod'', ''755'', p]
      in case pkexec ev cmd of
           Some e \<Rightarrow> Inl e
         | None \<Rightarrow> (if path_exists fs p then Inr fs else Inl (CalledProcessError cmd)))"

definition pkexec_update_desktop_database :: "env \<Rightarrow> fsys \<Rightarrow> exn + fsys" where
  "pkexec_update_desktop_database ev fs =
     (case pkexec ev [''pkexec'', ''update-desktop-database''] of
        Some e \<Rightarrow> Inl e
      | None \<Rightarrow> Inr fs)"

definition desktop_file_text :: "install_dirs \<Rightarrow> app_data \<Rightarrow> string" where
  "desktop_file_text ds d = join_lines (desktop_file_content ds d)"

definition create_directories :: "bool \<Rightarrow> install_dirs \<Rightarrow> fsys \<Rightarrow> outcome" where
  "create_directories system_wide ds fs =
     (if \<not> system_wide
      then and_then (attempt fs (makedirs fs (app_dir ds))) (\<lambda>fs.
           and_then (attempt fs (makedirs fs (bin_dir ds))) (\<lambda>fs.
           attempt fs (makedirs fs (icon_dir ds))))
      else (None, fs))"

definition copy_executable :: "env \<Rightarrow> bool \<Rightarrow> install_dirs \<Rightarrow> app_data \<Rightarrow> fsys \<Rightarrow> outcome" where
  "copy_executable ev system_wide ds d fs =
     (if system_wide
      then and_then (attempt fs (pkexec_cp ev fs (executable_path d) (dest_exe_path ds d))) (\<lambda>fs.
           attempt fs (pkexec_chmod ev fs (dest_exe_path ds d)))
      else and_then (attempt fs (shutil_copy False fs (executable_path d) (dest_exe_path ds d))) (\<lambda>fs.
           attempt fs (os_chmod fs (dest_exe_path ds d))))"

definition copy_icon :: "env \<Rightarrow> bool \<Rightarrow> install_dirs \<Rightarrow> app_data \<Rightarrow> fsys \<Rightarrow> outcome" where
  "copy_icon ev system_wide ds d fs =
     (if icon_path d \<noteq> []
      then (if system_wide
            then attempt fs (pkexec_cp ev fs (icon_path d) (dest_icon_path ds d))
            else attempt fs (shutil_copy False fs (icon_path d) (dest_icon_path ds d)))
      else (None, fs))"

definition write_desktop_file :: "env \<Rightarrow> bool \<Rightarrow> install_dirs \<Rightarrow> app_data \<Rightarrow> fsys \<Rightarrow> outcome" where
  "write_desktop_file ev system_wide ds d fs =
     (if system_wide
      then and_then (attempt fs (write_file False fs (mktemp ev) (desktop_file_text ds d))) (\<lambda>fs.
           and_then (attempt fs (pkexec_cp ev fs (mktemp ev) (desktop_file_path ds d))) (\<lambda>fs.
           and_then (attempt fs (os_remove False fs (mktemp ev))) (\<lambda>fs.
           attempt fs (pkexec_update_desktop_database ev fs))))
      else attempt fs (write_file False fs (desktop_file_path ds d) (desktop_file_text ds d)))"


text \<open>
  The whole of \<open>run\<close>: \<open>None\<close> in the first component is the signal \<open>finished\<close>, \<open>Some e\<close> is
  the signal \<open>error\<close> with the message "Error installing application: " followed
  by \<open>str(e)\<close>. The progress signals are left out.
\<close>

definition AppInstallThread_run :: "env \<Rightarrow> bool \<Rightarrow> app_data \<Rightarrow> fsys \<Rightarrow> outcome" where
  "AppInstallThread_run ev system_wide d fs =
     (let ds = install_dirs_of (home ev) system_wide
      in and_then (create_directories system_wide ds fs) (\<lambda>fs.
         and_then (copy_executable ev system_wide ds d fs) (\<lambda>fs.
         and_then (copy_icon ev system_wide ds d fs) (\<lambda>fs.
         write_desktop_file ev system_wide ds d fs))))"

section \<open>Entry Catalog\<close>

text \<open>
  Iterating over a file opened in text mode: \<open>\r\n\<close> and \<open>\r\<close> are read as \<open>\n\<close>, and every
  line keeps its \<open>\n\<close> (the last line has none when the file does not end in one).
\<close>

fun translate_newlines :: "string \<Rightarrow> string" where
  "translate_newlines [] = []"
| "translate_newlines [c] = (if c = CHR 0x0D then [CHR 0x0A] else [c])"
| "translate_newlines (c # d # cs) =
     (if c = CHR 0x0D
      then (if d = CHR 0x0A then CHR 0x0A # translate_newlines cs
            else CHR 0x0A # translate_newlines (d # cs))
      else c # translate_newlines (d # cs))"

fun split_lines :: "string \<Rightarrow> string \<Rightarrow> string list" where
  "split_lines cur [] = (if cur = [] then [] else [cur])"
| "split_lines cur (c # cs) =
     (if c = CHR 0x0A then (cur @ [c]) # split_lines [] cs else split_lines (cur @ [c]) cs)"

definition file_lines :: "string \<Rightarrow> string list" where
  "file_lines content = split_lines [] (translate_newlines content)"

text \<open>
  The parsing loop of \<open>show_app_details\<close> over the lines of the file. \<open>details\<close> is the
  dictionary: a key that is set again keeps its place and takes the new value. Unpacking
  \<open>key, value = line.split('=', 1)\<close> raises \<open>ValueError\<close> unless there are two parts.
\<close>

fun parse_details :: "(string \<times> string) list \<Rightarrow> string list \<Rightarrow> exn + (string \<times> string) list" where
  "parse_details details [] = Inr details"
| "parse_details details (raw # rest) =
     (let line = strip raw
      in if CHR ''='' \<in> set line \<and> \<not> startswith line ''#''
         then (case split_eq_1 line of
                 [key, val] \<Rightarrow> parse_details (AList.update key val details) rest
               | _ \<Rightarrow> Inl ValueError)
         else parse_details details rest)"

text \<open>
  What one line adds to the dictionary, in the words of the specification: the stripped
  line is split at its first \<open>=\<close> when it has one and does not start with \<open>#\<close>, and adds
  nothing otherwise.
\<close>

definition line_entry :: "string \<Rightarrow> (string \<times> string) option" where
  "line_entry raw =
     (let line = strip raw
      in if CHR ''='' \<in> set line \<and> \<not> startswith line ''#''
         then Some (takeWhile (\<lambda>c. c \<noteq> CHR ''='') line,
                    tl (dropWhile (\<lambda>c. c \<noteq> CHR ''='') line))
         else None)"

definition add_entry :: "string \<Rightarrow> (string \<times> string) list \<Rightarrow> (string \<times> string) list" where
  "add_entry raw details =
     (case line_entry raw of
        None \<Rightarrow> details
      | Some kv \<Rightarrow> AList.update (fst kv) (snd kv) details)"

text \<open>
  \<open>read\<close>: nothing is shown (\<open>None\<close>) when the path does not exist. Opening the file may
  raise; the file being text, decoding it does not.
\<close>

definition show_app_details :: "fsys \<Rightarrow> string \<Rightarrow> (exn + (string \<times> string) list) option" where
  "show_app_details fs desktop_file =
     (if path_exists fs desktop_file
      then Some (case read_file fs desktop_file of
                   Inl e \<Rightarrow> Inl e
                 | Inr content \<Rightarrow> parse_details [] (file_lines content))
      else None)"

text \<open>
  For the round trip of an install and a read: the dictionary that the entry file of a
  request is read back as, the lines it is written as, the keys that occur, and the values
  that reading a line gives back unchanged (no line break in them, no whitespace at their
  end).
\<close>

definition kept_by_read :: "string \<Rightarrow> bool" where
  "kept_by_read v =
     (CHR 0x0A \<notin> set v \<and> CHR 0x0D \<notin> set v \<and> rstrip_with isspace v = v)"

definition expected_details :: "install_dirs \<Rightarrow> app_data \<Rightarrow> (string \<times> string) list" where
  "expected_details ds d =
     [(''Name'', if app_name d \<noteq> [] then app_name d else splitext_0 (exe_name d)),
      (''Exec'', dest_exe_path ds d),
      (''Type'', ''Application''),
      (''Categories'', if category d \<noteq> [] then category d else ''Utility'')]
     @ (if icon_path d \<noteq> [] then [(''Icon'', splitext_0 (icon_name d))] else [])
     @ (if keywords' d \<noteq> [] then [(''Keywords'', keywords' d)] else [])
     @ (if description d \<noteq> [] then [(''Comment'', description d)] else [])"

definition entry_line :: "string \<times> string \<Rightarrow> string" where
  "entry_line kv = fst kv @ ''='' @ snd kv"

definition entry_keys :: "string list" where
  "entry_keys = [''Name'', ''Exec'', ''Type'', ''Categories'', ''Icon'', ''Keywords'', ''Comment'']"

text \<open>
  \<open>list\<close>: an item of the list widget is its text (the file name) and its data (the full
  path).
\<close>

type_synonym item = "string \<times> string"

definition items_of_dir :: "fsys \<Rightarrow> string \<Rightarrow> item list" where
  "items_of_dir fs dir =
     (if path_exists fs dir
      then map (\<lambda>file_name. (file_name, path_join dir file_name))
             (filter (\<lambda>file_name. endswith file_name ''.desktop'') (listdir fs dir))
      else [])"

definition refresh_installed_apps :: "env \<Rightarrow> fsys \<Rightarrow> item list" where
  "refresh_installed_apps ev fs =
     concat (map (items_of_dir fs)
       [expanduser (home ev) ''/.local/share/applications'', ''/usr/share/applications''])"

text \<open>
  The search for the \<open>Exec\<close> line in \<open>uninstall_app\<close>, over the raw lines:
  \<open>line.strip().split("=", 1)[1].split()[0]\<close> of the first line that starts with \<open>Exec=\<close>.
\<close>

fun find_exec :: "string list \<Rightarrow> exn + string option" where
  "find_exec [] = Inr None"
| "find_exec (line # rest) =
     (if startswith line ''Exec=''
      then (case split_eq_1 (strip line) of
              [key, val] \<Rightarrow> (case split_whitespace val of
                                [] \<Rightarrow> Inl IndexError
                              | tok # toks \<Rightarrow> Inr (Some tok))
            | _ \<Rightarrow> Inl IndexError)
      else find_exec rest)"

text \<open>
  \<open>remove\<close>: \<open>uninstall_app\<close> for the selected item, once the user has confirmed. \<open>None\<close>
  is the message "Application uninstalled successfully."; \<open>Some e\<close> is "Failed to
  uninstall application: " followed by \<open>str(e)\<close>.
\<close>

definition remove_executable :: "env \<Rightarrow> string option \<Rightarrow> fsys \<Rightarrow> outcome" where
  "remove_executable ev exec_path fs =
     (case exec_path of
        None \<Rightarrow> (None, fs)
      | Some x \<Rightarrow>
          (if x \<noteq> [] \<and> startswith x (expanduser (home ev) ''/.local/bin'')
           then attempt fs (os_remove False fs x)
           else (None, fs)))"

definition uninstall_app :: "env \<Rightarrow> fsys \<Rightarrow> item \<Rightarrow> outcome" where
  "uninstall_app ev fs selected =
     (let desktop_file = fst selected;
          desktop_file_path =
            path_join (expanduser (home ev) ''/.local/share/applications'') desktop_file
      in case read_file fs desktop_file_path of
           Inl e \<Rightarrow> (Some e, fs)
         | Inr content \<Rightarrow>
             (case find_exec (file_lines content) of
                Inl e \<Rightarrow> (Some e, fs)
              | Inr exec_path \<Rightarrow>
                  and_then (attempt fs (os_remove False fs desktop_file_path))
                    (remove_executable ev exec_path)))"

section \<open>Icon Resolver: \<open>IconExtractorThread.run\<close>\<close>

text \<open>
  What the bundle extracts is a tree. An entry of a directory is a regular file with its
  bytes, a directory with its entries in listing order, or something else that is neither
  (a dangling link, for one); links to directories are not modelled.
\<close>

datatype node = File string | Dir "(string \<times> node) list" | Other

fun child :: "node option \<Rightarrow> string \<Rightarrow> node option" where
  "child (Some (Dir es)) name = map_of es name"
| "child x name = None"

definition descend :: "node option \<Rightarrow> string list \<Rightarrow> node option" where
  "descend nd names = foldl child nd names"

fun is_Dir :: "node \<Rightarrow> bool" where
  "is_Dir (Dir es) = True"
| "is_Dir x = False"

text \<open>
  \<open>os.walk(top)\<close>, top-down: the triple of a directory (its path, the names of its
  subdirectories, its other entries) comes before the triples of its subdirectories, which
  follow in listing order. A non-directory entry is kept with its node, which is what its
  joined path leads to.
\<close>

type_synonym walk_triple = "string \<times> string list \<times> (string \<times> node) list"

fun walk :: "string \<Rightarrow> node \<Rightarrow> walk_triple list" where
  "walk root (Dir es) =
     (root, map fst (filter (\<lambda>e. is_Dir (snd e)) es), filter (\<lambda>e. \<not> is_Dir (snd e)) es)
     # concat (map (\<lambda>e. walk (path_join root (fst e)) (snd e)) (filter (\<lambda>e. is_Dir (snd e)) es))"
| "walk root x = []"

definition is_icon_name :: "string \<Rightarrow> bool" where
  "is_icon_name file =
     (endswith (lower file) ''.png'' \<or> endswith (lower file) ''.svg''
      \<or> endswith (lower file) ''.xpm'')"

text \<open>The inner loop over \<open>files\<close>, left at the first hit.\<close>

fun scan_files :: "string \<Rightarrow> (string \<times> node) list \<Rightarrow> (string \<times> node) option" where
  "scan_files root [] = None"
| "scan_files root (f # rest) =
     (if is_icon_name (fst f) then Some (path_join root (fst f), snd f)
      else scan_files root rest)"

text \<open>The loop over the triples of the walk, left as soon as \<open>icon_path\<close> is set.\<close>

fun scan_walk :: "walk_triple list \<Rightarrow> (string \<times> node) option" where
  "scan_walk [] = None"
| "scan_walk (t # rest) =
     (case scan_files (fst t) (snd (snd t)) of
        Some hit \<Rightarrow> Some hit
      | None \<Rightarrow> scan_walk rest)"

text \<open>
  The scan order as a list: every non-directory entry the walk meets, with the path of its
  directory, in the order of the walk; and the first of them that has an icon name.
\<close>

definition walk_files :: "walk_triple list \<Rightarrow> (string \<times> string \<times> node) list" where
  "walk_files ts = concat (map (\<lambda>t. map (\<lambda>f. (fst t, f)) (snd (snd t))) ts)"

definition first_icon :: "(string \<times> string \<times> node) list \<Rightarrow> (string \<times> node) option" where
  "first_icon cands =
     map_option (\<lambda>c. (path_join (fst c) (fst (snd c)), snd (snd c)))
       (List.find (\<lambda>c. is_icon_name (fst (snd c))) cands)"

text \<open>The loop over \<open>possible_locations\<close>, each location with the node it leads to.\<close>

fun scan_locations :: "(string \<times> node option) list \<Rightarrow> (string \<times> node) option" where
  "scan_locations [] = None"
| "scan_locations (l # rest) =
     (case snd l of
        Some (File bytes) \<Rightarrow> Some (fst l, File bytes)
      | Some (Dir es) \<Rightarrow>
          (case scan_walk (walk (fst l) (Dir es)) of
             Some hit \<Rightarrow> Some hit
           | None \<Rightarrow> scan_locations rest)
      | _ \<Rightarrow> scan_locations rest)"

definition possible_locations :: "string \<Rightarrow> node option \<Rightarrow> (string \<times> node option) list" where
  "possible_locations temp_dir root =
     (let squashfs_root = path_join temp_dir ''squashfs-root''
      in [(path_join squashfs_root ''.DirIcon'', descend root [''.DirIcon'']),
          (path_join_all squashfs_root [''usr'', ''share'', ''icons''],
             descend root [''usr'', ''share'', ''icons'']),
          (path_join_all squashfs_root [''usr'', ''share'', ''pixmaps''],
             descend root [''usr'', ''share'', ''pixmaps''])])"

text \<open>
  The environment of the resolver: what \<open>tempfile.mkdtemp()\<close> does (the new directory, or
  the exception it raises), and what \<open>subprocess.run(cmd, cwd=temp_dir, check=True)\<close> does:
  it raises (the bundle cannot be started, or exits with a non-zero status), or the bundle
  exits with status 0 and leaves the entry \<open>squashfs-root\<close> in the directory, if any.
\<close>

record resolver_env =
  mkdtemp :: "exn + string"
  run_bundle :: "string list \<Rightarrow> string \<Rightarrow> exn + node option"

text \<open>
  The signals of the resolver. \<open>Finished p\<close> is \<open>finished\<close> with the saved path;
  \<open>UnsupportedFormat\<close> is \<open>error\<close> with "Icon extraction is currently only supported for
  AppImage files"; \<open>NotFound\<close> is \<open>error\<close> with "No icon found in the AppImage";
  \<open>ExtractionFailure e\<close> is \<open>error\<close> with "Error extracting icon: " followed by \<open>str(e)\<close>.
\<close>

datatype icon_signal = Finished string | UnsupportedFormat | NotFound | ExtractionFailure exn

text \<open>
  A run gives its signal, the command lines of the processes it started, and the entries
  of the scratch directory at its end (none when the directory was not created or the
  bundle failed).
\<close>

record resolution =
  signal :: icon_signal
  processes :: "string list list"
  scratch :: "(string \<times> node) list"

definition save_icon :: "string \<Rightarrow> string list \<Rightarrow> (string \<times> node) list \<Rightarrow> (string \<times> node) option \<Rightarrow> resolution" where
  "save_icon temp_dir cmd entries found =
     (case found of
        None \<Rightarrow> \<lparr>signal = NotFound, processes = [cmd], scratch = entries\<rparr>
      | Some hit \<Rightarrow>
          (case snd hit of
             File bytes \<Rightarrow>
               \<lparr>signal = Finished (path_join temp_dir ''extracted_icon.png''),
                processes = [cmd],
                scratch = AList.update ''extracted_icon.png'' (File bytes) entries\<rparr>
           | _ \<Rightarrow>
               \<lparr>signal = ExtractionFailure (FileNotFoundError (fst hit)),
                processes = [cmd], scratch = entries\<rparr>))"

definition IconExtractorThread_run :: "resolver_env \<Rightarrow> string \<Rightarrow> resolution" where
  "IconExtractorThread_run ev file_path =
     (case mkdtemp ev of
        Inl e \<Rightarrow> \<lparr>signal = ExtractionFailure e, processes = [], scratch = []\<rparr>
      | Inr temp_dir \<Rightarrow>
          (if endswith (lower file_path) ''.appimage''
           then (let cmd = [file_path, ''--appimage-extract'']
                 in case run_bundle ev cmd temp_dir of
                      Inl e \<Rightarrow> \<lparr>signal = ExtractionFailure e, processes = [cmd], scratch = []\<rparr>
                    | Inr root \<Rightarrow>
                        save_icon temp_dir cmd
                          (case root of None \<Rightarrow> [] | Some n \<Rightarrow> [(''squashfs-root'', n)])
                          (scan_locations (possible_locations temp_dir root)))
           else \<lparr>signal = UnsupportedFormat, processes = [], scratch = []\<rparr>))"

section \<open>Derived executable names\<close>

text \<open>
  C1. For the application name "My Cool App" and the source file \<open>my-cool-app.AppImage\<close> the
  installer derives \<open>my-cool-app\<close>, without the \<open>.appimage\<close> extension: the test on the
  source name at this place compares case-sensitively, so \<open>.AppImage\<close> is not recognised;
  for the all-lowercase source name \<open>my-cool-app.appimage\<close> the extension is appended.
\<close>

theorem new_exe_name_my_cool_app:
  "new_exe_name \<lparr>executable_path = ''/home/u/Downloads/my-cool-app.AppImage'',
      app_name = ''My Cool App'', icon_path = [], category = ''Utility'', keywords' = [],
      description = [], dependencies = []\<rparr> = ''my-cool-app''
   \<and> new_exe_name \<lparr>executable_path = ''/home/u/Downloads/my-cool-app.appimage'',
      app_name = ''My Cool App'', icon_path = [], category = ''Utility'', keywords' = [],
      description = [], dependencies = []\<rparr> = ''my-cool-app.appimage''"
  by code_simp

section \<open>What the Icon Resolver returns\<close>

lemma find_append_opt:
  "List.find P (xs @ ys) = (case List.find P xs of Some x \<Rightarrow> Some x | None \<Rightarrow> List.find P ys)"
  by (induction xs) auto

lemma scan_files_first_icon:
  "scan_files root fs = first_icon (map (\<lambda>f. (root, f)) fs)"
  by (induction fs) (auto simp: first_icon_def)

lemma first_icon_append:
  "first_icon (xs @ ys) = (case first_icon xs of Some h \<Rightarrow> Some h | None \<Rightarrow> first_icon ys)"
  by (auto simp: first_icon_def find_append_opt split: option.splits)

lemma scan_walk_first_icon: "scan_walk ts = first_icon (walk_files ts)"
proof (induction ts)
  case Nil
  show ?case by (simp add: walk_files_def first_icon_def)
next
  case (Cons t ts)
  have "walk_files (t # ts) = map (\<lambda>f. (fst t, f)) (snd (snd t)) @ walk_files ts"
    by (simp add: walk_files_def)
  then show ?case
    using Cons.IH by (simp add: first_icon_append scan_files_first_icon split: option.splits)
qed

lemma scan_same_level:
  assumes "\<forall>e \<in> set pre. is_Dir (snd e) \<or> \<not> is_icon_name (fst e)"
      and "\<not> is_Dir (snd f)" and "is_icon_name (fst f)"
  shows "scan_walk (walk root (Dir (pre @ f # post))) = Some (path_join root (fst f), snd f)"
proof -
  have "scan_files root
          (filter (\<lambda>e. \<not> is_Dir (snd e)) pre @ f # filter (\<lambda>e. \<not> is_Dir (snd e)) post)
        = Some (path_join root (fst f), snd f)"
    using assms(1,3) by (induction pre) auto
  with assms(2) show ?thesis by simp
qed

text \<open>
  C2, as the code has it. The scan of the icons (or pixmaps) directory returns the first
  non-directory entry, in the order of the walk, whose lower-cased name ends in \<open>.png\<close>,
  \<open>.svg\<close> or \<open>.xpm\<close>. Within one directory that is the first such entry of the listing,
  whatever its extension and whatever follows it or lies deeper: the three extensions are
  tested together, no one of them is preferred.
\<close>

theorem scan_first_in_walk_order:
  "scan_walk (walk root nd) = first_icon (walk_files (walk root nd))
   \<and> (\<forall>pre f post.
        (\<forall>e \<in> set pre. is_Dir (snd e) \<or> \<not> is_icon_name (fst e))
        \<longrightarrow> \<not> is_Dir (snd f) \<longrightarrow> is_icon_name (fst f)
        \<longrightarrow> scan_walk (walk root (Dir (pre @ f # post)))
              = Some (path_join root (fst f), snd f))"
  using scan_walk_first_icon scan_same_level by blast

theorem scan_first_in_walk_order_witness:
  "\<not> is_icon_name ''README'' \<and> is_icon_name ''app.svg''
   \<and> scan_walk (walk ''/tmp/tmpab12/squashfs-root/usr/share/icons''
        (Dir [(''README'', File ''text''),
              (''hicolor'', Dir [(''app.png'', File ''PNG'')]),
              (''app.svg'', File ''<svg/>''),
              (''app.xpm'', File ''XPM''),
              (''app.png'', File ''PNG'')]))
       = Some (''/tmp/tmpab12/squashfs-root/usr/share/icons/app.svg'', File ''<svg/>'')"
proof -
  let ?pre = "[(''README'', File ''text''), (''hicolor'', Dir [(''app.png'', File ''PNG'')])]"
  let ?f = "(''app.svg'', File ''<svg/>'')"
  let ?post = "[(''app.xpm'', File ''XPM''), (''app.png'', File ''PNG'')]"
  have n: "\<not> is_icon_name ''README''" by code_simp
  have i: "is_icon_name ''app.svg''" by code_simp
  have j: "path_join ''/tmp/tmpab12/squashfs-root/usr/share/icons'' ''app.svg''
           = ''/tmp/tmpab12/squashfs-root/usr/share/icons/app.svg''" by code_simp
  have "scan_walk (walk ''/tmp/tmpab12/squashfs-root/usr/share/icons'' (Dir (?pre @ ?f # ?post)))
        = Some (path_join ''/tmp/tmpab12/squashfs-root/usr/share/icons'' (fst ?f), snd ?f)"
    using scan_first_in_walk_order [of "''/tmp/tmpab12/squashfs-root/usr/share/icons''" "Dir []",
        THEN conjunct2, rule_format, of ?pre ?f ?post] n i
    by simp
  with n i j show ?thesis by simp
qed

text \<open>
  The claim as written fails where an SVG is listed before a PNG in the icons directory:
  the SVG is the icon that is saved.
\<close>

theorem scan_same_level_counterexample:
  "IconExtractorThread_run
     \<lparr>mkdtemp = Inr ''/tmp/tmpab12'',
      run_bundle = (\<lambda>cmd cwd. Inr (Some (Dir [(''usr'', Dir [(''share'', Dir [(''icons'',
         Dir [(''app.svg'', File ''<svg/>''), (''app.png'', File ''PNG'')])])])])))\<rparr>
     ''/home/u/App.AppImage''
   = \<lparr>signal = Finished ''/tmp/tmpab12/extracted_icon.png'',
      processes = [[''/home/u/App.AppImage'', ''--appimage-extract'']],
      scratch = [(''squashfs-root'', Dir [(''usr'', Dir [(''share'', Dir [(''icons'',
         Dir [(''app.svg'', File ''<svg/>''), (''app.png'', File ''PNG'')])])])]),
                 (''extracted_icon.png'', File ''<svg/>'')]\<rparr>"
  by code_simp

text \<open>
  C7, as the code has it. For a path whose lower-cased form does not end in \<open>.appimage\<close> no
  process is started, and the signal is \<open>UnsupportedFormat\<close> once the scratch directory
  exists: the directory is made before the extension is looked at, and when making it
  raises, the signal is \<open>ExtractionFailure\<close>.
\<close>

theorem resolve_icon_not_bundle:
  assumes "\<not> endswith (lower file_path) ''.appimage''"
  shows "processes (IconExtractorThread_run ev file_path) = []
       \<and> signal (IconExtractorThread_run ev file_path)
           = (case mkdtemp ev of Inl e \<Rightarrow> ExtractionFailure e | Inr temp_dir \<Rightarrow> UnsupportedFormat)"
  using assms by (simp add: IconExtractorThread_run_def split: sum.splits)

theorem resolve_icon_not_bundle_witness:
  "\<not> endswith (lower ''/opt/tools/convert.bin'') ''.appimage''
   \<and> processes (IconExtractorThread_run
        \<lparr>mkdtemp = Inr ''/tmp/tmpab12'', run_bundle = (\<lambda>cmd cwd. Inr None)\<rparr>
        ''/opt/tools/convert.bin'') = []
   \<and> signal (IconExtractorThread_run
        \<lparr>mkdtemp = Inr ''/tmp/tmpab12'', run_bundle = (\<lambda>cmd cwd. Inr None)\<rparr>
        ''/opt/tools/convert.bin'') = UnsupportedFormat"
proof -
  have h: "\<not> endswith (lower ''/opt/tools/convert.bin'') ''.appimage''" by code_simp
  show ?thesis
    using h resolve_icon_not_bundle [OF h,
      of "\<lparr>mkdtemp = Inr ''/tmp/tmpab12'', run_bundle = (\<lambda>cmd cwd. Inr None)\<rparr>"]
    by simp
qed

text \<open>
  The claim as written fails where the scratch directory cannot be made: the path is not a
  bundle, and the signal is not \<open>UnsupportedFormat\<close>.
\<close>

theorem resolve_icon_not_bundle_counterexample:
  "\<not> endswith (lower ''/opt/tools/convert.bin'') ''.appimage''
   \<and> signal (IconExtractorThread_run
        \<lparr>mkdtemp = Inl (FileNotFoundError ''No usable temporary directory found''),
         run_bundle = (\<lambda>cmd cwd. Inr None)\<rparr>
        ''/opt/tools/convert.bin'')
       = ExtractionFailure (FileNotFoundError ''No usable temporary directory found'')"
  by code_simp

lemma endswith_slash_iff: "endswith a ''/'' \<longleftrightarrow> a \<noteq> [] \<and> last a = CHR ''/''"
proof (cases a rule: rev_cases)
  case Nil
  then show ?thesis by (simp add: endswith_def)
next
  case (snoc xs x)
  then show ?thesis by (auto simp: endswith_def)
qed

lemma basename_append:
  assumes "CHR ''/'' \<notin> set b" and "x = [] \<or> last x = CHR ''/''"
  shows "basename (x @ b) = b"
proof (cases x rule: rev_cases)
  case Nil
  with assms(1) show ?thesis by (simp add: basename_def rfind_def)
next
  case (snoc xs c)
  with assms(2) have c: "c = CHR ''/''" by simp
  have "takeWhile (\<lambda>y. y \<noteq> CHR ''/'') (rev b @ CHR ''/'' # rev xs) = rev b"
    using assms(1) takeWhile_append2 [of "rev b" "\<lambda>y. y \<noteq> CHR ''/''" "CHR ''/'' # rev xs"]
    by auto
  then have "rfind (x @ b) CHR ''/'' = int (length xs)"
    using snoc c by (simp add: rfind_def)
  moreover have "nat (int (length xs) + 1) = Suc (length xs)" by simp
  ultimately show ?thesis
    using snoc c by (simp add: basename_def)
qed

lemma basename_path_join:
  assumes "CHR ''/'' \<notin> set b"
  shows "basename (path_join a b) = b"
proof -
  have nb: "\<not> startswith b ''/''"
    using assms by (cases b) (auto simp: startswith_def)
  show ?thesis
  proof (cases "a = [] \<or> endswith a ''/''")
    case True
    then have "path_join a b = a @ b" using nb by (auto simp: path_join_def)
    moreover have "a = [] \<or> last a = CHR ''/''" using True by (auto simp: endswith_slash_iff)
    ultimately show ?thesis using basename_append [OF assms] by simp
  next
    case False
    then have "path_join a b = (a @ ''/'') @ b" using nb by (simp add: path_join_def)
    then show ?thesis using basename_append [OF assms, of "a @ ''/''"] by simp
  qed
qed

lemma save_icon_Finished:
  assumes "signal (save_icon temp_dir cmd entries found) = Finished p"
  shows "\<exists>icon_path bytes. found = Some (icon_path, File bytes)
           \<and> p = path_join temp_dir ''extracted_icon.png''
           \<and> map_of (scratch (save_icon temp_dir cmd entries found)) ''extracted_icon.png''
               = Some (File bytes)"
proof (cases found)
  case None
  with assms show ?thesis by (simp add: save_icon_def)
next
  case (Some hit)
  obtain icon_path nd where hit: "hit = (icon_path, nd)" by (cases hit)
  show ?thesis
  proof (cases nd)
    case (File bytes)
    with assms Some hit show ?thesis
      by (simp add: save_icon_def update_conv')
  next
    case (Dir es)
    with assms Some hit show ?thesis by (simp add: save_icon_def)
  next
    case Other
    with assms Some hit show ?thesis by (simp add: save_icon_def)
  qed
qed

text \<open>
  C10. When the resolver signals \<open>finished\<close> with a path, the scratch directory was made,
  the bundle ran, the search matched a regular file, the path is \<open>extracted_icon.png\<close>
  joined to the scratch directory, and the entry of that name in the scratch directory
  holds the bytes of the matched file. The name does not depend on the matched file: an
  icon matched as \<open>.svg\<close> or \<open>.xpm\<close> is saved under the \<open>.png\<close> name all the same.
\<close>

theorem resolve_icon_saved_copy:
  assumes "signal (IconExtractorThread_run ev file_path) = Finished p"
  shows "\<exists>temp_dir root icon_path bytes.
           mkdtemp ev = Inr temp_dir
         \<and> run_bundle ev [file_path, ''--appimage-extract''] temp_dir = Inr root
         \<and> scan_locations (possible_locations temp_dir root) = Some (icon_path, File bytes)
         \<and> p = path_join temp_dir ''extracted_icon.png''
         \<and> basename p = ''extracted_icon.png''
         \<and> map_of (scratch (IconExtractorThread_run ev file_path)) ''extracted_icon.png''
             = Some (File bytes)"
proof (cases "mkdtemp ev")
  case (Inl e)
  with assms show ?thesis by (simp add: IconExtractorThread_run_def)
next
  case (Inr temp_dir)
  note tmp = this
  show ?thesis
  proof (cases "endswith (lower file_path) ''.appimage''")
    case False
    with assms tmp show ?thesis by (simp add: IconExtractorThread_run_def)
  next
    case True
    note ext = this
    show ?thesis
    proof (cases "run_bundle ev [file_path, ''--appimage-extract''] temp_dir")
      case (Inl e)
      with assms tmp ext show ?thesis by (simp add: IconExtractorThread_run_def)
    next
      case (Inr root)
      let ?entries = "case root of None \<Rightarrow> [] | Some n \<Rightarrow> [(''squashfs-root'', n)]"
      let ?found = "scan_locations (possible_locations temp_dir root)"
      have run: "IconExtractorThread_run ev file_path
                 = save_icon temp_dir [file_path, ''--appimage-extract''] ?entries ?found"
        using tmp ext Inr by (simp add: IconExtractorThread_run_def)
      from assms run
      have "signal (save_icon temp_dir [file_path, ''--appimage-extract''] ?entries ?found)
              = Finished p" by simp
      from save_icon_Finished [OF this] obtain icon_path bytes where
        f: "?found = Some (icon_path, File bytes)"
        and p: "p = path_join temp_dir ''extracted_icon.png''"
        and s: "map_of (scratch (save_icon temp_dir [file_path, ''--appimage-extract'']
                  ?entries ?found)) ''extracted_icon.png'' = Some (File bytes)"
        by blast
      have b: "basename p = ''extracted_icon.png''"
        unfolding p by (rule basename_path_join) simp
      from tmp Inr f p b s run show ?thesis by simp
    qed
  qed
qed

theorem resolve_icon_saved_copy_witness:
  "signal (IconExtractorThread_run
      \<lparr>mkdtemp = Inr ''/tmp/tmpab12'',
       run_bundle = (\<lambda>cmd cwd. Inr (Some (Dir [(''usr'', Dir [(''share'', Dir [(''pixmaps'',
          Dir [(''viewer.svg'', File ''<svg/>'')])])])])))\<rparr>
      ''/home/u/Viewer.AppImage'') = Finished ''/tmp/tmpab12/extracted_icon.png''
   \<and> (\<exists>temp_dir root icon_path bytes.
         temp_dir = ''/tmp/tmpab12''
       \<and> scan_locations (possible_locations temp_dir root) = Some (icon_path, File bytes)
       \<and> map_of (scratch (IconExtractorThread_run
            \<lparr>mkdtemp = Inr ''/tmp/tmpab12'',
             run_bundle = (\<lambda>cmd cwd. Inr (Some (Dir [(''usr'', Dir [(''share'', Dir [(''pixmaps'',
                Dir [(''viewer.svg'', File ''<svg/>'')])])])])))\<rparr>
            ''/home/u/Viewer.AppImage'')) ''extracted_icon.png'' = Some (File bytes))"
proof -
  let ?ev = "\<lparr>mkdtemp = Inr ''/tmp/tmpab12'',
       run_bundle = (\<lambda>cmd cwd. Inr (Some (Dir [(''usr'', Dir [(''share'', Dir [(''pixmaps'',
          Dir [(''viewer.svg'', File ''<svg/>'')])])])])))\<rparr>"
  have h: "signal (IconExtractorThread_run ?ev ''/home/u/Viewer.AppImage'')
           = Finished ''/tmp/tmpab12/extracted_icon.png''" by code_simp
  from resolve_icon_saved_copy [OF h] h show ?thesis by auto
qed

section \<open>What the Entry Installer writes\<close>

lemma and_then_None:
  assumes "and_then r f = (None, fs')"
  shows "\<exists>fs1. r = (None, fs1) \<and> f fs1 = (None, fs')"
proof (cases "fst r")
  case None
  with assms have "f (snd r) = (None, fs')" by (simp add: and_then_def)
  moreover from None have "r = (None, snd r)" by (cases r) simp
  ultimately show ?thesis by blast
next
  case (Some e)
  with assms show ?thesis by (simp add: and_then_def)
qed

lemma attempt_None: "attempt fs r = (None, fs') \<Longrightarrow> r = Inr fs'"
  by (cases r) (auto simp: attempt_def)

lemma run_success_written:
  assumes "AppInstallThread_run ev sw d fs = (None, fs')"
  shows "\<exists>fs3. write_desktop_file ev sw (install_dirs_of (home ev) sw) d fs3 = (None, fs')"
proof -
  from assms obtain fs1 where
    "and_then (copy_executable ev sw (install_dirs_of (home ev) sw) d fs1) (\<lambda>fs.
       and_then (copy_icon ev sw (install_dirs_of (home ev) sw) d fs) (\<lambda>fs.
       write_desktop_file ev sw (install_dirs_of (home ev) sw) d fs)) = (None, fs')"
    unfolding AppInstallThread_run_def Let_def by (blast dest: and_then_None)
  then obtain fs2 where
    "and_then (copy_icon ev sw (install_dirs_of (home ev) sw) d fs2) (\<lambda>fs.
       write_desktop_file ev sw (install_dirs_of (home ev) sw) d fs) = (None, fs')"
    by (blast dest: and_then_None)
  then show ?thesis by (blast dest: and_then_None)
qed

lemma write_file_Inr:
  assumes "write_file su fs p c = Inr fs'"
  shows "fs' = fs\<lparr>files := AList.update p c (files fs)\<rparr>" and "\<not> isdir fs p"
  using assms by (auto simp: write_file_def split: if_splits)

lemma read_after_write:
  assumes "write_file su fs p c = Inr fs'"
  shows "read_file fs' p = Inr c"
  using write_file_Inr [OF assms] by (simp add: read_file_def isdir_def update_conv')

lemma written_user:
  assumes "write_desktop_file ev False ds d fs = (None, fs')"
  shows "read_file fs' (desktop_file_path ds d) = Inr (desktop_file_text ds d)"
proof -
  from assms have "write_file False fs (desktop_file_path ds d) (desktop_file_text ds d) = Inr fs'"
    by (simp add: write_desktop_file_def attempt_None)
  then show ?thesis by (rule read_after_write)
qed




















text \<open>
  C5. For the executable \<open>tool-1.2.bin\<close> installed without an application name, the name
  without its extension is \<open>tool-1.2\<close>; the installer writes the entry file
  \<open>tool-1.desktop\<close> and the icon \<open>tool-1.png\<close>, named after the text before the first dot.
\<close>

theorem install_multi_dot_name:
  "splitext_0 ''tool-1.2.bin'' = ''tool-1.2''
   \<and> AppInstallThread_run
        \<lparr>home = ''/home/u'', mktemp = ''/tmp/tmpq1w2e3'', pkexec = (\<lambda>cmd. None)\<rparr>
        False
        \<lparr>executable_path = ''/home/u/Downloads/tool-1.2.bin'', app_name = [],
         icon_path = ''/home/u/Pictures/tool.png'', category = ''Utility'', keywords' = [],
         description = [], dependencies = []\<rparr>
        \<lparr>files = [(''/home/u/Downloads/tool-1.2.bin'', ''ELF''),
                  (''/home/u/Pictures/tool.png'', ''PNG'')],
         dirs = [(''/'', False), (''/home'', False), (''/home/u'', True),
                 (''/home/u/Downloads'', True), (''/home/u/Pictures'', True)]\<rparr>
     = (None,
        \<lparr>files = [(''/home/u/Downloads/tool-1.2.bin'', ''ELF''),
                  (''/home/u/Pictures/tool.png'', ''PNG''),
                  (''/home/u/.local/bin/tool-1.2.bin'', ''ELF''),
                  (''/home/u/.local/share/icons/hicolor/256x256/apps/tool-1.png'', ''PNG''),
                  (''/home/u/.local/share/applications/tool-1.desktop'',
                   ''[Desktop Entry]\<newline>Name=tool-1.2\<newline>Exec=/home/u/.local/bin/tool-1.2.bin\<newline>Type=Application\<newline>Categories=Utility\<newline>Icon=tool-1'')],
         dirs = [(''/'', False), (''/home'', False), (''/home/u'', True),
                 (''/home/u/Downloads'', True), (''/home/u/Pictures'', True),
                 (''/home/u/.local'', True), (''/home/u/.local/share'', True),
                 (''/home/u/.local/share/applications'', True),
                 (''/home/u/.local/bin'', True),
                 (''/home/u/.local/share/icons'', True),
                 (''/home/u/.local/share/icons/hicolor'', True),
                 (''/home/u/.local/share/icons/hicolor/256x256'', True),
                 (''/home/u/.local/share/icons/hicolor/256x256/apps'', True)]\<rparr>)"
  by code_simp

section \<open>Reading and removing entries\<close>

lemma parse_details_fold: "parse_details details lines = Inr (fold add_entry lines details)"
  by (induction lines arbitrary: details)
     (simp_all add: split_eq_1_def line_entry_def add_entry_def Let_def)

lemma split_at_first:
  assumes "c \<in> set s"
  shows "s = takeWhile (\<lambda>x. x \<noteq> c) s @ c # tl (dropWhile (\<lambda>x. x \<noteq> c) s)"
proof -
  from assms have "dropWhile (\<lambda>x. x \<noteq> c) s \<noteq> []" by (simp add: dropWhile_eq_Nil_conv)
  moreover from this have "hd (dropWhile (\<lambda>x. x \<noteq> c) s) = c"
    using hd_dropWhile [of "\<lambda>x. x \<noteq> c" s] by simp
  ultimately have "dropWhile (\<lambda>x. x \<noteq> c) s = c # tl (dropWhile (\<lambda>x. x \<noteq> c) s)"
    by (metis list.collapse)
  then show ?thesis
    using takeWhile_dropWhile_id [of "\<lambda>x. x \<noteq> c" s] by simp
qed

lemma line_entry_Some:
  assumes "line_entry raw = Some (k, v)"
  shows "strip raw = k @ ''='' @ v \<and> CHR ''='' \<notin> set k"
proof -
  from assms have e: "CHR ''='' \<in> set (strip raw)"
    and k: "k = takeWhile (\<lambda>c. c \<noteq> CHR ''='') (strip raw)"
    and v: "v = tl (dropWhile (\<lambda>c. c \<noteq> CHR ''='') (strip raw))"
    by (auto simp: line_entry_def Let_def split: if_splits)
  have "CHR ''='' \<notin> set k"
    unfolding k using set_takeWhileD by fastforce
  with split_at_first [OF e] k v show ?thesis by simp
qed

text \<open>
  C6, as the code has it, for a file that opens and decodes as text. The parse never
  raises: its result is the dictionary built by adding the lines one after the other. A line adds an entry exactly when its stripped
  form contains \<open>=\<close> and does not start with \<open>#\<close>; the stripped line is then the key, \<open>=\<close>
  and the value, the key has no \<open>=\<close> in it, and the key maps to that value afterwards, so
  that the last line for a key decides. Any other line leaves the dictionary as it was.
  Reading a file that opens and decodes to a text gives the parse of the lines of that
  text.
\<close>

theorem read_parses_stripped_lines:
  "parse_details details lines = Inr (fold add_entry lines details)
   \<and> (line_entry raw \<noteq> None
        \<longleftrightarrow> CHR ''='' \<in> set (strip raw) \<and> \<not> startswith (strip raw) ''#'')
   \<and> (\<forall>k v. line_entry raw = Some (k, v)
        \<longrightarrow> strip raw = k @ ''='' @ v \<and> CHR ''='' \<notin> set k
            \<and> map_of (add_entry raw details) k = Some v)
   \<and> (line_entry raw = None \<longrightarrow> add_entry raw details = details)
   \<and> (\<forall>content. read_file fs p = Inr content
        \<longrightarrow> show_app_details fs p = Some (Inr (fold add_entry (file_lines content) [])))"
proof (intro conjI allI impI)
  show "parse_details details lines = Inr (fold add_entry lines details)"
    by (rule parse_details_fold)
  show "line_entry raw \<noteq> None
        \<longleftrightarrow> CHR ''='' \<in> set (strip raw) \<and> \<not> startswith (strip raw) ''#''"
    by (simp add: line_entry_def Let_def)
next
  fix k v assume a: "line_entry raw = Some (k, v)"
  from line_entry_Some [OF a]
  show "strip raw = k @ ''='' @ v" and "CHR ''='' \<notin> set k" by simp_all
  from a show "map_of (add_entry raw details) k = Some v"
    by (simp add: add_entry_def update_conv')
next
  assume "line_entry raw = None"
  then show "add_entry raw details = details" by (simp add: add_entry_def)
next
  fix content assume r: "read_file fs p = Inr content"
  then have "path_exists fs p"
    by (auto simp: read_file_def path_exists_def isfile_def split: if_splits option.splits)
  with r show "show_app_details fs p = Some (Inr (fold add_entry (file_lines content) []))"
    by (simp add: show_app_details_def parse_details_fold)
qed

theorem read_parses_stripped_lines_witness:
  "read_file \<lparr>files = [(''/home/u/.local/share/applications/x.desktop'',
       ''[Desktop Entry]\<newline>Name=Old\<newline>  # Hidden=1\<newline>not a pair\<newline>Name=New  \<newline>Exec=/opt/x --mode=fast'')],
       dirs = [(''/home/u/.local/share/applications'', True)]\<rparr>
     ''/home/u/.local/share/applications/x.desktop''
    = Inr ''[Desktop Entry]\<newline>Name=Old\<newline>  # Hidden=1\<newline>not a pair\<newline>Name=New  \<newline>Exec=/opt/x --mode=fast''
   \<and> show_app_details \<lparr>files = [(''/home/u/.local/share/applications/x.desktop'',
       ''[Desktop Entry]\<newline>Name=Old\<newline>  # Hidden=1\<newline>not a pair\<newline>Name=New  \<newline>Exec=/opt/x --mode=fast'')],
       dirs = [(''/home/u/.local/share/applications'', True)]\<rparr>
     ''/home/u/.local/share/applications/x.desktop''
    = Some (Inr [(''Name'', ''New''), (''Exec'', ''/opt/x --mode=fast'')])
   \<and> line_entry ''Exec=/opt/x --mode=fast'' = Some (''Exec'', ''/opt/x --mode=fast'')
   \<and> strip ''Exec=/opt/x --mode=fast'' = ''Exec'' @ ''='' @ ''/opt/x --mode=fast''
   \<and> line_entry ''not a pair'' = None
   \<and> add_entry ''not a pair'' [(''Name'', ''Old'')] = [(''Name'', ''Old'')]"
proof -
  let ?fs = "\<lparr>files = [(''/home/u/.local/share/applications/x.desktop'',
       ''[Desktop Entry]\<newline>Name=Old\<newline>  # Hidden=1\<newline>not a pair\<newline>Name=New  \<newline>Exec=/opt/x --mode=fast'')],
       dirs = [(''/home/u/.local/share/applications'', True)]\<rparr>"
  let ?p = "''/home/u/.local/share/applications/x.desktop''"
  let ?c = "''[Desktop Entry]\<newline>Name=Old\<newline>  # Hidden=1\<newline>not a pair\<newline>Name=New  \<newline>Exec=/opt/x --mode=fast''"
  note t = read_parses_stripped_lines [of "[(''Name'', ''Old'')]" "[]" "''not a pair''" ?fs ?p]
  note u = read_parses_stripped_lines [of "[]" "[]" "''Exec=/opt/x --mode=fast''" ?fs ?p]
  have r: "read_file ?fs ?p = Inr ?c" by code_simp
  have f: "fold add_entry (file_lines ?c) [] = [(''Name'', ''New''), (''Exec'', ''/opt/x --mode=fast'')]"
    by code_simp
  have e: "line_entry ''Exec=/opt/x --mode=fast'' = Some (''Exec'', ''/opt/x --mode=fast'')"
    by code_simp
  have n: "line_entry ''not a pair'' = None" by code_simp
  from t r f have 1: "show_app_details ?fs ?p
      = Some (Inr [(''Name'', ''New''), (''Exec'', ''/opt/x --mode=fast'')])" by simp
  from u e have 2: "strip ''Exec=/opt/x --mode=fast'' = ''Exec'' @ ''='' @ ''/opt/x --mode=fast''"
    by blast
  from t n have 3: "add_entry ''not a pair'' [(''Name'', ''Old'')] = [(''Name'', ''Old'')]"
    by blast
  from r 1 e 2 n 3 show ?thesis by blast
qed

text \<open>
  The claim as written fails on raw lines: an indented comment contains \<open>=\<close> and does not
  start with \<open>#\<close>, yet adds nothing, and the blanks at the end of a value are not kept.
\<close>

theorem read_indented_comment_counterexample:
  "CHR ''='' \<in> set ''  # Hidden=1'' \<and> \<not> startswith ''  # Hidden=1'' ''#''
   \<and> parse_details [] (file_lines ''  # Hidden=1'') = Inr []
   \<and> parse_details [] (file_lines ''Name=New  \<newline>'') = Inr [(''Name'', ''New'')]"
  by code_simp

text \<open>
  C8. An entry in the user applications directory whose \<open>Exec\<close> token
  \<open>/home/u/.local/bin-backup/tool\<close> lies in a directory beside the user bin directory:
  the test is a test of string prefixes, and \<open>uninstall_app\<close> removes that file as well.
\<close>

theorem uninstall_exec_beside_user_bin:
  "dirname ''/home/u/.local/bin-backup/tool'' = ''/home/u/.local/bin-backup''
   \<and> expanduser ''/home/u'' ''/.local/bin'' = ''/home/u/.local/bin''
   \<and> uninstall_app
        \<lparr>home = ''/home/u'', mktemp = ''/tmp/tmpq1w2e3'', pkexec = (\<lambda>cmd. None)\<rparr>
        \<lparr>files = [(''/home/u/.local/share/applications/tool.desktop'',
                   ''[Desktop Entry]\<newline>Name=Tool\<newline>Exec=/home/u/.local/bin-backup/tool %U\<newline>Type=Application''),
                  (''/home/u/.local/bin-backup/tool'', ''ELF'')],
         dirs = [(''/'', False), (''/home'', False), (''/home/u'', True),
                 (''/home/u/.local'', True), (''/home/u/.local/share'', True),
                 (''/home/u/.local/share/applications'', True),
                 (''/home/u/.local/bin'', True), (''/home/u/.local/bin-backup'', True)]\<rparr>
        (''tool.desktop'', ''/home/u/.local/share/applications/tool.desktop'')
     = (None,
        \<lparr>files = [],
         dirs = [(''/'', False), (''/home'', False), (''/home/u'', True),
                 (''/home/u/.local'', True), (''/home/u/.local/share'', True),
                 (''/home/u/.local/share/applications'', True),
                 (''/home/u/.local/bin'', True), (''/home/u/.local/bin-backup'', True)]\<rparr>)"
  by code_simp

text \<open>
  C3. The list shows \<open>editor.desktop\<close> twice, once for each scope. Removing the item of
  the system scope acts on the file of that name in the user applications directory: the
  user's entry is removed with the message of success and the system entry stays; with no
  such file in the user directory the error is \<open>FileNotFoundError\<close> for the user path. The
  system path is never handed to \<open>os.remove\<close>, which alone would raise \<open>PermissionError\<close>.
\<close>

theorem uninstall_system_entry:
  "refresh_installed_apps
        \<lparr>home = ''/home/u'', mktemp = ''/tmp/tmpq1w2e3'', pkexec = (\<lambda>cmd. None)\<rparr>
        \<lparr>files = [(''/home/u/.local/share/applications/editor.desktop'',
                   ''[Desktop Entry]\<newline>Name=My Editor\<newline>Exec=/opt/editor/run\<newline>Type=Application''),
                  (''/usr/share/applications/editor.desktop'',
                   ''[Desktop Entry]\<newline>Name=Editor\<newline>Exec=/usr/bin/editor\<newline>Type=Application'')],
         dirs = [(''/home/u/.local/share/applications'', True),
                 (''/usr/share/applications'', False)]\<rparr>
     = [(''editor.desktop'', ''/home/u/.local/share/applications/editor.desktop''),
        (''editor.desktop'', ''/usr/share/applications/editor.desktop'')]
   \<and> uninstall_app
        \<lparr>home = ''/home/u'', mktemp = ''/tmp/tmpq1w2e3'', pkexec = (\<lambda>cmd. None)\<rparr>
        \<lparr>files = [(''/home/u/.local/share/applications/editor.desktop'',
                   ''[Desktop Entry]\<newline>Name=My Editor\<newline>Exec=/opt/editor/run\<newline>Type=Application''),
                  (''/usr/share/applications/editor.desktop'',
                   ''[Desktop Entry]\<newline>Name=Editor\<newline>Exec=/usr/bin/editor\<newline>Type=Application'')],
         dirs = [(''/home/u/.local/share/applications'', True),
                 (''/usr/share/applications'', False)]\<rparr>
        (''editor.desktop'', ''/usr/share/applications/editor.desktop'')
     = (None,
        \<lparr>files = [(''/usr/share/applications/editor.desktop'',
                   ''[Desktop Entry]\<newline>Name=Editor\<newline>Exec=/usr/bin/editor\<newline>Type=Application'')],
         dirs = [(''/home/u/.local/share/applications'', True),
                 (''/usr/share/applications'', False)]\<rparr>)
   \<and> uninstall_app
        \<lparr>home = ''/home/u'', mktemp = ''/tmp/tmpq1w2e3'', pkexec = (\<lambda>cmd. None)\<rparr>
        \<lparr>files = [(''/usr/share/applications/editor.desktop'',
                   ''[Desktop Entry]\<newline>Name=Editor\<newline>Exec=/usr/bin/editor\<newline>Type=Application'')],
         dirs = [(''/home/u/.local/share/applications'', True),
                 (''/usr/share/applications'', False)]\<rparr>
        (''editor.desktop'', ''/usr/share/applications/editor.desktop'')
     = (Some (FileNotFoundError ''/home/u/.local/share/applications/editor.desktop''),
        \<lparr>files = [(''/usr/share/applications/editor.desktop'',
                   ''[Desktop Entry]\<newline>Name=Editor\<newline>Exec=/usr/bin/editor\<newline>Type=Application'')],
         dirs = [(''/home/u/.local/share/applications'', True),
                 (''/usr/share/applications'', False)]\<rparr>)
   \<and> os_remove False
        \<lparr>files = [(''/usr/share/applications/editor.desktop'',
                   ''[Desktop Entry]\<newline>Name=Editor\<newline>Exec=/usr/bin/editor\<newline>Type=Application'')],
         dirs = [(''/home/u/.local/share/applications'', True),
                 (''/usr/share/applications'', False)]\<rparr>
        ''/usr/share/applications/editor.desktop''
     = Inl (PermissionError ''/usr/share/applications/editor.desktop'')"
  by code_simp

section \<open>An install, then a read\<close>

lemma translate_newlines_id: "CHR 0x0D \<notin> set s \<Longrightarrow> translate_newlines s = s"
  by (induction s rule: translate_newlines.induct) auto

lemma split_lines_no_newline:
  "CHR 0x0A \<notin> set l \<Longrightarrow> split_lines cur l = (if cur @ l = [] then [] else [cur @ l])"
  by (induction l arbitrary: cur) auto

lemma split_lines_newline:
  "CHR 0x0A \<notin> set l \<Longrightarrow>
   split_lines cur (l @ CHR 0x0A # rest) = (cur @ l @ [CHR 0x0A]) # split_lines [] rest"
  by (induction l arbitrary: cur) auto

lemma isspace_newline: "isspace (CHR 0x0A)"
  by code_simp

lemma strip_newline: "strip (l @ [CHR 0x0A]) = strip l"
proof (cases "\<forall>c \<in> set l. isspace c")
  case True
  then have e: "dropWhile isspace l = []" by simp
  have a: "strip l = []" by (simp only: strip_def rstrip_with_def e) simp
  from True have "\<forall>c \<in> set (l @ [CHR 0x0A]). isspace c"
    by (simp add: isspace_newline)
  then have f: "dropWhile isspace (l @ [CHR 0x0A]) = []"
    by (simp only: dropWhile_eq_Nil_conv)
  have "strip (l @ [CHR 0x0A]) = []" by (simp only: strip_def rstrip_with_def f) simp
  with a show ?thesis by simp
next
  case False
  then have "dropWhile isspace (l @ [CHR 0x0A]) = dropWhile isspace l @ [CHR 0x0A]"
    by (auto simp: dropWhile_append1)
  then show ?thesis by (simp add: strip_def rstrip_with_def isspace_newline)
qed

lemma add_entry_newline: "add_entry (l @ [CHR 0x0A]) = add_entry l"
  by (rule ext) (simp add: add_entry_def line_entry_def strip_newline)

lemma add_entry_empty: "add_entry [] details = details"
  by (simp add: add_entry_def line_entry_def strip_def rstrip_with_def)

lemma fold_add_entry_join_lines:
  assumes "\<forall>l \<in> set ls. CHR 0x0A \<notin> set l"
  shows "fold add_entry (split_lines [] (join_lines ls)) details = fold add_entry ls details"
  using assms
proof (induction ls arbitrary: details rule: join_lines.induct)
  case 1
  show ?case by simp
next
  case (2 x)
  then show ?case by (simp add: split_lines_no_newline add_entry_empty)
next
  case (3 x y ys)
  then show ?case by (simp add: split_lines_newline add_entry_newline)
qed

lemma set_join_lines: "set (join_lines ls) \<subseteq> insert (CHR 0x0A) (\<Union>l \<in> set ls. set l)"
  by (induction ls rule: join_lines.induct) auto


lemma show_app_details_read:
  assumes "read_file fs p = Inr content"
  shows "show_app_details fs p = Some (Inr (fold add_entry (file_lines content) []))"
proof -
  from assms have "path_exists fs p"
    by (auto simp: read_file_def path_exists_def isfile_def split: if_splits option.splits)
  with assms show ?thesis by (simp add: show_app_details_def parse_details_fold)
qed

lemma dropWhile_fixed_append:
  assumes "dropWhile P xs = xs" and "xs \<noteq> []"
  shows "dropWhile P (xs @ ys) = xs @ ys"
proof (cases xs)
  case Nil
  with assms(2) show ?thesis by simp
next
  case (Cons a list)
  have "\<not> P a"
  proof
    assume "P a"
    with assms(1) Cons have "dropWhile P list = a # list" by simp
    moreover have "length (dropWhile P list) \<le> length list" by (rule length_dropWhile_le)
    ultimately show False by simp
  qed
  with Cons show ?thesis by simp
qed

lemma not_isspace_eq: "\<not> isspace CHR ''=''"
  by code_simp

lemma strip_pair:
  assumes "k \<noteq> []" and "\<not> isspace (hd k)" and "rstrip_with isspace v = v"
  shows "strip (k @ ''='' @ v) = k @ ''='' @ v"
proof -
  from assms(1,2) have l: "dropWhile isspace (k @ ''='' @ v) = k @ ''='' @ v"
    by (cases k) auto
  have r: "dropWhile isspace (rev v @ CHR ''='' # rev k) = rev v @ CHR ''='' # rev k"
  proof (cases "v = []")
    case True
    then show ?thesis by (simp add: not_isspace_eq)
  next
    case False
    from assms(3) have "rev (dropWhile isspace (rev v)) = rev (rev v)"
      by (simp add: rstrip_with_def)
    then have "dropWhile isspace (rev v) = rev v" by (simp only: rev_is_rev_conv)
    with False show ?thesis by (simp add: dropWhile_fixed_append)
  qed
  show ?thesis by (simp only: strip_def l) (simp add: rstrip_with_def r)
qed

lemma add_entry_pair:
  assumes "k \<noteq> []" and "\<not> isspace (hd k)" and "hd k \<noteq> CHR ''#''"
      and "CHR ''='' \<notin> set k" and "rstrip_with isspace v = v"
  shows "add_entry (k @ ''='' @ v) details = AList.update k v details"
proof -
  have s: "strip (k @ ''='' @ v) = k @ ''='' @ v"
    using assms(1,2,5) by (rule strip_pair)
  have h: "\<not> startswith (k @ ''='' @ v) ''#''"
    using assms(1,3) by (cases k) (auto simp: startswith_def)
  have t: "takeWhile (\<lambda>c. c \<noteq> CHR ''='') (k @ ''='' @ v) = k"
    using assms(4) by (induction k) auto
  have d: "dropWhile (\<lambda>c. c \<noteq> CHR ''='') (k @ ''='' @ v) = ''='' @ v"
    using assms(4) by (induction k) auto
  have "line_entry (k @ ''='' @ v) = Some (k, v)"
    unfolding line_entry_def Let_def s using h t d by simp
  then show ?thesis by (simp add: add_entry_def)
qed

lemma entry_key_props:
  assumes "k \<in> set entry_keys"
  shows "k \<noteq> []" and "\<not> isspace (hd k)" and "hd k \<noteq> CHR ''#''" and "CHR ''='' \<notin> set k"
    and "CHR 0x0A \<notin> set k" and "CHR 0x0D \<notin> set k"
  using assms by (auto simp: entry_keys_def isspace_def)

lemma add_entry_line:
  assumes "fst kv \<in> set entry_keys" and "kept_by_read (snd kv)"
  shows "add_entry (entry_line kv) details = AList.update (fst kv) (snd kv) details"
  unfolding entry_line_def
  using entry_key_props(1-4) [OF assms(1)] assms(2)
  by (intro add_entry_pair) (simp_all add: kept_by_read_def)

lemma fold_add_entry_lines:
  assumes "\<forall>kv \<in> set kvs. fst kv \<in> set entry_keys \<and> kept_by_read (snd kv)"
  shows "fold add_entry (map entry_line kvs) details
         = fold (\<lambda>kv. AList.update (fst kv) (snd kv)) kvs details"
  using assms by (induction kvs arbitrary: details) (simp_all add: add_entry_line)

lemma entry_line_clean:
  assumes "fst kv \<in> set entry_keys" and "kept_by_read (snd kv)"
  shows "CHR 0x0A \<notin> set (entry_line kv)" and "CHR 0x0D \<notin> set (entry_line kv)"
  using entry_key_props(5,6) [OF assms(1)] assms(2)
  by (simp_all add: entry_line_def kept_by_read_def)

lemma header_adds_nothing: "add_entry ''[Desktop Entry]'' details = details"
proof -
  have "line_entry ''[Desktop Entry]'' = None" by code_simp
  then show ?thesis by (simp add: add_entry_def)
qed

lemma desktop_file_content_lines:
  "desktop_file_content ds d = ''[Desktop Entry]'' # map entry_line (expected_details ds d)"
  by (simp add: desktop_file_content_def expected_details_def entry_line_def icon_name_def)

lemma expected_details_keys: "kv \<in> set (expected_details ds d) \<Longrightarrow> fst kv \<in> set entry_keys"
  by (auto simp: expected_details_def entry_keys_def split: if_splits)

lemma fold_update_expected:
  "fold (\<lambda>kv. AList.update (fst kv) (snd kv)) (expected_details ds d) [] = expected_details ds d"
  by (simp add: expected_details_def)

lemma parse_written_text:
  assumes "\<forall>v \<in> set (map snd (expected_details ds d)). kept_by_read v"
  shows "fold add_entry (file_lines (desktop_file_text ds d)) [] = expected_details ds d"
proof -
  let ?ls = "desktop_file_content ds d"
  have ok: "\<forall>kv \<in> set (expected_details ds d). fst kv \<in> set entry_keys \<and> kept_by_read (snd kv)"
    using assms expected_details_keys by auto
  have clean: "\<forall>l \<in> set ?ls. CHR 0x0A \<notin> set l \<and> CHR 0x0D \<notin> set l"
    using ok entry_line_clean by (auto simp: desktop_file_content_lines)
  have "CHR 0x0D \<notin> set (join_lines ?ls)"
    using clean set_join_lines [of ?ls] by auto
  then have "file_lines (desktop_file_text ds d) = split_lines [] (join_lines ?ls)"
    by (simp add: file_lines_def desktop_file_text_def translate_newlines_id)
  then have "fold add_entry (file_lines (desktop_file_text ds d)) [] = fold add_entry ?ls []"
    using clean by (simp add: fold_add_entry_join_lines)
  also have "\<dots> = fold add_entry (map entry_line (expected_details ds d)) []"
    by (simp add: desktop_file_content_lines header_adds_nothing)
  also have "\<dots> = expected_details ds d"
    using ok by (simp add: fold_add_entry_lines fold_update_expected)
  finally show ?thesis .
qed

text \<open>
  C4, as the code has it. After a User-scope install that signals \<open>finished\<close>, reading the
  entry file gives the keys Name, Exec, Type and Categories, then Icon, Keywords and Comment
  for those of icon path, keywords and description that the request has, with these
  values: Name is the application name (the source's name without extension when there is
  none), Exec the destination path of the executable, Type \<open>Application\<close>, Categories the
  category (\<open>Utility\<close> when there is none), Icon the name under which the icon was
  installed without its \<open>.png\<close> (not the icon path of the request), Keywords and Comment
  the keywords and the description. This holds when none of these values contains a line
  break or ends in whitespace: the file format quotes nothing, and a read strips each
  line.
\<close>

theorem install_read_round_trip:
  assumes "AppInstallThread_run ev False d fs = (None, fs')"
      and "ds = install_dirs_of (home ev) False"
      and "\<forall>v \<in> set (map snd (expected_details ds d)). kept_by_read v"
  shows "show_app_details fs' (desktop_file_path ds d) = Some (Inr (expected_details ds d))
       \<and> map fst (expected_details ds d)
           = [''Name'', ''Exec'', ''Type'', ''Categories'']
             @ (if icon_path d \<noteq> [] then [''Icon''] else [])
             @ (if keywords' d \<noteq> [] then [''Keywords''] else [])
             @ (if description d \<noteq> [] then [''Comment''] else [])"
proof -
  from run_success_written [OF assms(1)] assms(2) obtain fs3 where
    "write_desktop_file ev False ds d fs3 = (None, fs')" by blast
  then have "read_file fs' (desktop_file_path ds d) = Inr (desktop_file_text ds d)"
    by (rule written_user)
  then have "show_app_details fs' (desktop_file_path ds d)
             = Some (Inr (fold add_entry (file_lines (desktop_file_text ds d)) []))"
    by (rule show_app_details_read)
  with parse_written_text [OF assms(3)] show ?thesis
    by (simp add: expected_details_def)
qed

theorem install_read_round_trip_witness:
  "fst (AppInstallThread_run
     \<lparr>home = ''/home/u'', mktemp = ''/tmp/tmpq1w2e3'', pkexec = (\<lambda>cmd. None)\<rparr>
     False
     \<lparr>executable_path = ''/home/u/Downloads/Notes.AppImage'', app_name = ''Notes'',
      icon_path = ''/tmp/tmpab12/extracted_icon.png'', category = ''Office'',
      keywords' = ''notes;text'', description = ''Takes notes'', dependencies = []\<rparr>
     \<lparr>files = [(''/home/u/Downloads/Notes.AppImage'', ''ELF''),
               (''/tmp/tmpab12/extracted_icon.png'', ''PNG'')],
      dirs = [(''/home/u'', True), (''/home/u/Downloads'', True), (''/tmp/tmpab12'', True)]\<rparr>)
   = None
   \<and> show_app_details
       (snd (AppInstallThread_run
         \<lparr>home = ''/home/u'', mktemp = ''/tmp/tmpq1w2e3'', pkexec = (\<lambda>cmd. None)\<rparr>
         False
         \<lparr>executable_path = ''/home/u/Downloads/Notes.AppImage'', app_name = ''Notes'',
          icon_path = ''/tmp/tmpab12/extracted_icon.png'', category = ''Office'',
          keywords' = ''notes;text'', description = ''Takes notes'', dependencies = []\<rparr>
         \<lparr>files = [(''/home/u/Downloads/Notes.AppImage'', ''ELF''),
                   (''/tmp/tmpab12/extracted_icon.png'', ''PNG'')],
          dirs = [(''/home/u'', True), (''/home/u/Downloads'', True),
                  (''/tmp/tmpab12'', True)]\<rparr>))
       ''/home/u/.local/share/applications/notes.desktop''
     = Some (Inr [(''Name'', ''Notes''), (''Exec'', ''/home/u/.local/bin/notes''),
                  (''Type'', ''Application''), (''Categories'', ''Office''),
                  (''Icon'', ''notes''), (''Keywords'', ''notes;text''),
                  (''Comment'', ''Takes notes'')])"
proof -
  let ?ev = "\<lparr>home = ''/home/u'', mktemp = ''/tmp/tmpq1w2e3'', pkexec = (\<lambda>cmd. None)\<rparr>"
  let ?d = "\<lparr>executable_path = ''/home/u/Downloads/Notes.AppImage'', app_name = ''Notes'',
      icon_path = ''/tmp/tmpab12/extracted_icon.png'', category = ''Office'',
      keywords' = ''notes;text'', description = ''Takes notes'', dependencies = []\<rparr>"
  let ?fs = "\<lparr>files = [(''/home/u/Downloads/Notes.AppImage'', ''ELF''),
               (''/tmp/tmpab12/extracted_icon.png'', ''PNG'')],
      dirs = [(''/home/u'', True), (''/home/u/Downloads'', True), (''/tmp/tmpab12'', True)]\<rparr>"
  let ?ds = "install_dirs_of (home ?ev) False"
  have n: "fst (AppInstallThread_run ?ev False ?d ?fs) = None" by code_simp
  then have h: "AppInstallThread_run ?ev False ?d ?fs
                = (None, snd (AppInstallThread_run ?ev False ?d ?fs))"
    by (metis prod.collapse)
  have k: "\<forall>v \<in> set (map snd (expected_details ?ds ?d)). kept_by_read v" by code_simp
  have x: "desktop_file_path ?ds ?d = ''/home/u/.local/share/applications/notes.desktop''"
    by code_simp
  have y: "expected_details ?ds ?d
           = [(''Name'', ''Notes''), (''Exec'', ''/home/u/.local/bin/notes''),
              (''Type'', ''Application''), (''Categories'', ''Office''),
              (''Icon'', ''notes''), (''Keywords'', ''notes;text''),
              (''Comment'', ''Takes notes'')]"
    by code_simp
  from n install_read_round_trip [OF h refl k, THEN conjunct1, unfolded x y] show ?thesis
    by (rule conjI)
qed

text \<open>
  The claim as written fails for a request with an icon path and a description of two
  lines: Icon is read back as \<open>notes\<close>, not as the icon path; Comment is the first line of
  the description only; and the second line comes back as a key \<open>Terminal\<close> of its own.
\<close>

theorem install_read_round_trip_counterexample:
  "fst (AppInstallThread_run
     \<lparr>home = ''/home/u'', mktemp = ''/tmp/tmpq1w2e3'', pkexec = (\<lambda>cmd. None)\<rparr>
     False
     \<lparr>executable_path = ''/home/u/Downloads/Notes.AppImage'', app_name = ''Notes'',
      icon_path = ''/tmp/tmpab12/extracted_icon.png'', category = ''Office'',
      keywords' = [], description = ''Takes notes\<newline>Terminal=true'', dependencies = []\<rparr>
     \<lparr>files = [(''/home/u/Downloads/Notes.AppImage'', ''ELF''),
               (''/tmp/tmpab12/extracted_icon.png'', ''PNG'')],
      dirs = [(''/home/u'', True), (''/home/u/Downloads'', True), (''/tmp/tmpab12'', True)]\<rparr>)
   = None
   \<and> show_app_details
       (snd (AppInstallThread_run
         \<lparr>home = ''/home/u'', mktemp = ''/tmp/tmpq1w2e3'', pkexec = (\<lambda>cmd. None)\<rparr>
         False
         \<lparr>executable_path = ''/home/u/Downloads/Notes.AppImage'', app_name = ''Notes'',
          icon_path = ''/tmp/tmpab12/extracted_icon.png'', category = ''Office'',
          keywords' = [], description = ''Takes notes\<newline>Terminal=true'',
          dependencies = []\<rparr>
         \<lparr>files = [(''/home/u/Downloads/Notes.AppImage'', ''ELF''),
                   (''/tmp/tmpab12/extracted_icon.png'', ''PNG'')],
          dirs = [(''/home/u'', True), (''/home/u/Downloads'', True),
                  (''/tmp/tmpab12'', True)]\<rparr>))
       ''/home/u/.local/share/applications/notes.desktop''
     = Some (Inr [(''Name'', ''Notes''), (''Exec'', ''/home/u/.local/bin/notes''),
                  (''Type'', ''Application''), (''Categories'', ''Office''),
                  (''Icon'', ''notes''), (''Comment'', ''Takes notes''),
                  (''Terminal'', ''true'')])"
  by code_simp


end
